theory Spec2Isabelle
  imports Complex_Main
begin

section \<open>Python values, exceptions and built-ins used by the design checks\<close>

text \<open>
  The repository is Python. Its \<^verbatim>\<open>float\<close> and \<^verbatim>\<open>int\<close> quantities are modelled
  as exact numbers (\<^typ>\<open>real\<close> and \<^typ>\<open>int\<close>): the rounding of IEEE doubles is not
  modelled, so every formula below is the formula of the source read over the reals.
  An exception is a value of type \<open>error\<close>; a method that may raise returns
  \<open>error + 'a\<close>, and a method that may also call \<^verbatim>\<open>print\<close> returns the lines it
  printed together with that result.

  The messages of the \<^verbatim>\<open>ValueError\<close>s the source raises are kept as tags:
  \<^item> \<open>G_M2_debe_ser_positivo\<close>: \<^verbatim>\<open>':( g_M2 debe ser positivo.'\<close>
  \<^item> \<open>F_u_debe_ser_positivo\<close>: \<^verbatim>\<open>':( f_u debe ser positivo.'\<close>
  \<^item> \<open>D_0_debe_ser_positivo\<close>: \<^verbatim>\<open>':( d_0 debe ser positivo.'\<close>
  \<^item> \<open>Posicion_no_valida_edge_inner\<close>: the message "Posicion no valida. Debe ser
    "edge" o "inner"." (with or without the leading \<^verbatim>\<open>:(\<close>)
  \<^item> \<open>Posicion_no_valida_end_inner\<close>: the message "Posicion no valida. Debe ser
    "end" o "inner"."
  \<^item> \<open>Invalid_literal_for_int\<close>: the message of the built-in \<^verbatim>\<open>int\<close> on a
    string that is not an integer literal.
\<close>

datatype value_error_msg =
    G_M2_debe_ser_positivo
  | F_u_debe_ser_positivo
  | D_0_debe_ser_positivo
  | Posicion_no_valida_edge_inner
  | Posicion_no_valida_end_inner
  | Invalid_literal_for_int

text \<open>
  \<open>UnboundLocalError v\<close> is what Python raises when a function reads its local
  variable \<open>v\<close> before any assignment to it has run.
\<close>

datatype error =
    ValueError value_error_msg
  | UnboundLocalError string
  | ZeroDivisionError
  | IndexError

type_synonym 'a printed = "string list \<times> (error + 'a)"

text \<open>Python's true division \<^verbatim>\<open>a / b\<close>: it raises on a zero divisor.\<close>

definition py_truediv :: "real \<Rightarrow> real \<Rightarrow> error + real" where
  "py_truediv a b = (if b = 0 then Inl ZeroDivisionError else Inr (a / b))"

section \<open>EN 1993-1-8, table 3.4: class \<^verbatim>\<open>ResistenciaCalculo\<close>\<close>

text \<open>
  The attributes of the object. The field names of the source (\<^verbatim>\<open>d\<close>, \<^verbatim>\<open>A\<close>,
  \<^verbatim>\<open>A_s\<close>, \<^verbatim>\<open>grado\<close>, \<^verbatim>\<open>f_ub\<close>, \<^verbatim>\<open>t\<close>, \<^verbatim>\<open>f_u\<close>, \<^verbatim>\<open>g_M2\<close>) carry the
  prefix \<open>rc_\<close> here, since the other class of the repository has attributes of
  the same names.
\<close>

record ResistenciaCalculo =
  rc_d :: real
  rc_A :: real
  rc_A_s :: real
  rc_grado :: string
  rc_f_ub :: real
  rc_t :: real
  rc_f_u :: real
  rc_g_M2 :: real

text \<open>\<^verbatim>\<open>__init__\<close>: the two checks, in the order of the source, then the assignments.\<close>

definition ResistenciaCalculo_init ::
  "real \<Rightarrow> real \<Rightarrow> real \<Rightarrow> string \<Rightarrow> real \<Rightarrow> real \<Rightarrow> real \<Rightarrow> real \<Rightarrow> error + ResistenciaCalculo" where
  "ResistenciaCalculo_init d A A_s grado f_ub t f_u g_M2 =
     (if g_M2 \<le> 0 then Inl (ValueError G_M2_debe_ser_positivo)
      else if f_u \<le> 0 then Inl (ValueError F_u_debe_ser_positivo)
      else Inr \<lparr>rc_d = d, rc_A = A, rc_A_s = A_s, rc_grado = grado, rc_f_ub = f_ub,
                rc_t = t, rc_f_u = f_u, rc_g_M2 = g_M2\<rparr>)"

subsection \<open>Shear resistance\<close>

text \<open>
  \<^verbatim>\<open>coeficiente_cortante_alfa_v\<close>. When the shear plane crosses the thread the source
  has an \<^verbatim>\<open>if\<close>/\<^verbatim>\<open>elif\<close> over the two grade tuples and no \<^verbatim>\<open>else\<close>: for any
  other grade \<^verbatim>\<open>alfa_v\<close> is never assigned and \<^verbatim>\<open>return alfa_v\<close> raises
  \<^verbatim>\<open>UnboundLocalError\<close>.
\<close>

definition coeficiente_cortante_alfa_v :: "ResistenciaCalculo \<Rightarrow> bool \<Rightarrow> error + real" where
  "coeficiente_cortante_alfa_v self plano_cortante_atraviesa_rosca =
     (if plano_cortante_atraviesa_rosca then
        (if rc_grado self \<in> set [''4.6'', ''5.6'', ''8.8''] then Inr 0.6
         else if rc_grado self \<in> set [''4.8'', ''5.8'', ''6.8'', ''10.9''] then Inr 0.5
         else Inl (UnboundLocalError ''alfa_v''))
      else Inr 0.6)"

definition resistencia_cortante :: "ResistenciaCalculo \<Rightarrow> bool \<Rightarrow> error + real" where
  "resistencia_cortante self plano_cortante_atraviesa_rosca =
     (case coeficiente_cortante_alfa_v self plano_cortante_atraviesa_rosca of
        Inl e \<Rightarrow> Inl e
      | Inr alfa_v \<Rightarrow>
          (let A = (if plano_cortante_atraviesa_rosca then rc_A_s self else rc_A self)
           in py_truediv (alfa_v * rc_f_ub self * A) (rc_g_M2 self)))"

subsection \<open>Bearing resistance\<close>

text \<open>
  \<^verbatim>\<open>coeficiente_k_1\<close>. The divisions by \<open>d_0\<close> stand after the guard \<open>d_0 \<le> 0\<close>, so
  they cannot raise. Python's \<^verbatim>\<open>min\<close> of several numbers is their least.
\<close>

definition coeficiente_k_1 ::
  "ResistenciaCalculo \<Rightarrow> real \<Rightarrow> real \<Rightarrow> real \<Rightarrow> string \<Rightarrow> error + real" where
  "coeficiente_k_1 self e_2 p_2 d_0 posicion =
     (if d_0 \<le> 0 then Inl (ValueError D_0_debe_ser_positivo)
      else if posicion = ''edge'' then
        (let k_11 = 2.8 * e_2 / d_0 - 1.7;
             k_12 = 1.4 * p_2 / d_0 - 1.7;
             k_13 = 2.5
         in Inr (min k_11 (min k_12 k_13)))
      else if posicion = ''inner'' then
        (let k_11 = 1.4 * p_2 / d_0 - 1.7;
             k_12 = 2.5
         in Inr (min k_11 k_12))
      else Inl (ValueError Posicion_no_valida_edge_inner))"

text \<open>
  \<^verbatim>\<open>coeficiente_alfa_d\<close>. Its \<^verbatim>\<open>else\<close> branch prints and falls through to
  \<^verbatim>\<open>return alfa_d\<close> with \<^verbatim>\<open>alfa_d\<close> unassigned.
\<close>

definition coeficiente_alfa_d ::
  "ResistenciaCalculo \<Rightarrow> real \<Rightarrow> real \<Rightarrow> real \<Rightarrow> string \<Rightarrow> real printed" where
  "coeficiente_alfa_d self e_1 p_1 d_0 posicion =
     (if d_0 \<le> 0 then ([], Inl (ValueError D_0_debe_ser_positivo))
      else if posicion = ''end'' then ([], Inr (e_1 / (3 * d_0)))
      else if posicion = ''inner'' then ([], Inr (p_1 / (3 * d_0) - 1 / 4))
      else ([''Algo ha ido mal :(''], Inl (UnboundLocalError ''alfa_d'')))"

definition coeficiente_alfa_b ::
  "ResistenciaCalculo \<Rightarrow> real \<Rightarrow> real \<Rightarrow> real \<Rightarrow> string \<Rightarrow> real printed" where
  "coeficiente_alfa_b self e_1 p_1 d_0 posicion =
     (if d_0 \<le> 0 then ([], Inl (ValueError D_0_debe_ser_positivo))
      else
        (case coeficiente_alfa_d self e_1 p_1 d_0 posicion of
           (out, Inl e) \<Rightarrow> (out, Inl e)
         | (out, Inr alfa_d) \<Rightarrow>
             (case py_truediv (rc_f_ub self) (rc_f_u self) of
                Inl e \<Rightarrow> (out, Inl e)
              | Inr q \<Rightarrow> (out, Inr (min alfa_d (min q 1.0))))))"

text \<open>
  \<^verbatim>\<open>capacidad_resistente_F_bRd\<close>: \<open>k_1\<close> first, then \<open>alfa_b\<close>, then the product.
\<close>

definition capacidad_resistente_F_bRd ::
  "ResistenciaCalculo \<Rightarrow> real \<Rightarrow> real \<Rightarrow> real \<Rightarrow> real \<Rightarrow> real \<Rightarrow> string \<Rightarrow> string \<Rightarrow> real printed" where
  "capacidad_resistente_F_bRd self e_1 e_2 p_1 p_2 d_0 posicion_k1 posicion_ad =
     (case coeficiente_k_1 self e_2 p_2 d_0 posicion_k1 of
        Inl e \<Rightarrow> ([], Inl e)
      | Inr k_1 \<Rightarrow>
          (case coeficiente_alfa_b self e_1 p_1 d_0 posicion_ad of
             (out, Inl e) \<Rightarrow> (out, Inl e)
           | (out, Inr alfa_b) \<Rightarrow>
               (out, py_truediv (k_1 * alfa_b * rc_f_u self * rc_d self * rc_t self)
                       (rc_g_M2 self))))"

definition capacidad_resistente_taladro_holgura_F_bRd ::
  "ResistenciaCalculo \<Rightarrow> real \<Rightarrow> real \<Rightarrow> real \<Rightarrow> real \<Rightarrow> real \<Rightarrow> string \<Rightarrow> string \<Rightarrow> real printed" where
  "capacidad_resistente_taladro_holgura_F_bRd self e_1 e_2 p_1 p_2 d_0 posicion_k1 posicion_ad =
     (case capacidad_resistente_F_bRd self e_1 e_2 p_1 p_2 d_0 posicion_k1 posicion_ad of
        (out, Inl e) \<Rightarrow> (out, Inl e)
      | (out, Inr F_bRd) \<Rightarrow> (out, Inr (0.8 * F_bRd)))"

text \<open>
  \<^verbatim>\<open>capacidad_resistente_taladro_rasgado_F_bRd\<close> checks both position tags itself
  before it calls the base method. (The two messages are as the source has them: the
  check of \<^verbatim>\<open>posicion_k1\<close> names "end", the check of \<^verbatim>\<open>posicion_ad\<close> names "edge".)
\<close>

definition capacidad_resistente_taladro_rasgado_F_bRd ::
  "ResistenciaCalculo \<Rightarrow> real \<Rightarrow> real \<Rightarrow> real \<Rightarrow> real \<Rightarrow> real \<Rightarrow> string \<Rightarrow> string \<Rightarrow> real printed" where
  "capacidad_resistente_taladro_rasgado_F_bRd self e_1 e_2 p_1 p_2 d_0 posicion_k1 posicion_ad =
     (if posicion_k1 \<notin> set [''edge'', ''inner'']
        then ([], Inl (ValueError Posicion_no_valida_end_inner))
      else if posicion_ad \<notin> set [''end'', ''inner'']
        then ([], Inl (ValueError Posicion_no_valida_edge_inner))
      else
        (case capacidad_resistente_F_bRd self e_1 e_2 p_1 p_2 d_0 posicion_k1 posicion_ad of
           (out, Inl e) \<Rightarrow> (out, Inl e)
         | (out, Inr F_bRd) \<Rightarrow> (out, Inr (0.6 * F_bRd))))"

subsection \<open>Punching resistance\<close>

definition media_de_distancias_entre_vertices_y_caras_planas_d_m ::
  "ResistenciaCalculo \<Rightarrow> real \<Rightarrow> real" where
  "media_de_distancias_entre_vertices_y_caras_planas_d_m self s = 1.07735 * s"

definition resistencia_punzonamiento_B_pRd :: "ResistenciaCalculo \<Rightarrow> real \<Rightarrow> error + real" where
  "resistencia_punzonamiento_B_pRd self s =
     (let d_m = media_de_distancias_entre_vertices_y_caras_planas_d_m self s
      in py_truediv (0.6 * pi * d_m * rc_t self * rc_f_u self) (rc_g_M2 self))"

section \<open>Python strings: \<^verbatim>\<open>str.split\<close>, indexing and \<^verbatim>\<open>int\<close>\<close>

text \<open>
  \<^verbatim>\<open>s.split(sep, maxsplit)\<close> for a separator of one character: at most \<open>maxsplit\<close>
  cuts, from the left; the rest of the string is the last element.
\<close>

fun py_split :: "char \<Rightarrow> nat \<Rightarrow> string \<Rightarrow> string list" where
  "py_split sep 0 s = [s]"
| "py_split sep (Suc n) s =
     (if sep \<in> set s
      then takeWhile (\<lambda>c. c \<noteq> sep) s # py_split sep n (tl (dropWhile (\<lambda>c. c \<noteq> sep) s))
      else [s])"

text \<open>\<^verbatim>\<open>xs[i]\<close> for an index \<open>i \<ge> 0\<close>: \<^verbatim>\<open>IndexError\<close> past the end.\<close>

definition py_getitem :: "'a list \<Rightarrow> nat \<Rightarrow> error + 'a" where
  "py_getitem xs i = (if i < length xs then Inr (xs ! i) else Inl IndexError)"

text \<open>
  \<^verbatim>\<open>int(s)\<close> for a string of ASCII characters: surrounding whitespace is dropped, one
  sign is allowed, and the digits may be separated by single underscores. Anything else
  is a \<^verbatim>\<open>ValueError\<close>. (Digits of other scripts and the interpreter's limit on the
  number of digits are not modelled.)
\<close>

definition py_isspace :: "char \<Rightarrow> bool" where
  "py_isspace c = (c \<in> set [CHR '' '', CHR 0x09, CHR 0x0A, CHR 0x0B, CHR 0x0C, CHR 0x0D,
                              CHR 0x1C, CHR 0x1D, CHR 0x1E, CHR 0x1F])"

definition py_strip :: "string \<Rightarrow> string" where
  "py_strip s = rev (dropWhile py_isspace (rev (dropWhile py_isspace s)))"

definition digit_value :: "char \<Rightarrow> nat option" where
  "digit_value c = map_of (zip ''0123456789'' [0, 1, 2, 3, 4, 5, 6, 7, 8, 9]) c"

fun py_digits :: "nat \<Rightarrow> string \<Rightarrow> nat option" where
  "py_digits acc [] = None"
| "py_digits acc [c] =
     (case digit_value c of None \<Rightarrow> None | Some v \<Rightarrow> Some (10 * acc + v))"
| "py_digits acc (c # u # cs) =
     (case digit_value c of
        None \<Rightarrow> None
      | Some v \<Rightarrow>
          (if u = CHR ''_'' then py_digits (10 * acc + v) cs
           else py_digits (10 * acc + v) (u # cs)))"

definition py_int :: "string \<Rightarrow> error + int" where
  "py_int s =
     (case py_strip s of
        [] \<Rightarrow> Inl (ValueError Invalid_literal_for_int)
      | c # cs \<Rightarrow>
          (if c = CHR ''-'' then
             (case py_digits 0 cs of
                None \<Rightarrow> Inl (ValueError Invalid_literal_for_int)
              | Some n \<Rightarrow> Inr (- int n))
           else if c = CHR ''+'' then
             (case py_digits 0 cs of
                None \<Rightarrow> Inl (ValueError Invalid_literal_for_int)
              | Some n \<Rightarrow> Inr (int n))
           else
             (case py_digits 0 (c # cs) of
                None \<Rightarrow> Inl (ValueError Invalid_literal_for_int)
              | Some n \<Rightarrow> Inr (int n))))"

section \<open>EN 1993-1-3, table 8.4: classes \<^verbatim>\<open>RangoValidez\<close> and \<^verbatim>\<open>ResistenciasDisenoTornillos\<close>\<close>

subsection \<open>The validity range\<close>

record RangoValidez =
  rv_d_0 :: real

definition RangoValidez_init :: "real \<Rightarrow> RangoValidez" where
  "RangoValidez_init d_0 = \<lparr>rv_d_0 = d_0\<rparr>"

definition rango_validez_e_1 :: "RangoValidez \<Rightarrow> real" where
  "rango_validez_e_1 self = rv_d_0 self"

definition rango_validez_e_2 :: "RangoValidez \<Rightarrow> real" where
  "rango_validez_e_2 self = 1.5 * rv_d_0 self"

definition rango_validez_p_1 :: "RangoValidez \<Rightarrow> real" where
  "rango_validez_p_1 self = 3 * rv_d_0 self"

definition rango_validez_p_2 :: "RangoValidez \<Rightarrow> real" where
  "rango_validez_p_2 self = 3 * rv_d_0 self"

subsection \<open>The design resistances\<close>

text \<open>
  The attributes of the source (\<^verbatim>\<open>d\<close>, \<^verbatim>\<open>A_s\<close>, \<^verbatim>\<open>grado\<close>, \<^verbatim>\<open>d_0\<close>, \<^verbatim>\<open>t\<close>,
  \<^verbatim>\<open>f_u\<close>, \<^verbatim>\<open>g_M2\<close>) carry the prefix \<open>rdt_\<close>. This constructor checks nothing.
\<close>

record ResistenciasDisenoTornillos =
  rdt_d :: real
  rdt_A_s :: real
  rdt_grado :: string
  rdt_d_0 :: real
  rdt_t :: real
  rdt_f_u :: real
  rdt_g_M2 :: real

definition ResistenciasDisenoTornillos_init ::
  "real \<Rightarrow> real \<Rightarrow> string \<Rightarrow> real \<Rightarrow> real \<Rightarrow> real \<Rightarrow> real \<Rightarrow> ResistenciasDisenoTornillos" where
  "ResistenciasDisenoTornillos_init d A_s grado d_0 t f_u g_M2 =
     \<lparr>rdt_d = d, rdt_A_s = A_s, rdt_grado = grado, rdt_d_0 = d_0, rdt_t = t,
      rdt_f_u = f_u, rdt_g_M2 = g_M2\<rparr>"

definition area_transversal_neta :: "ResistenciasDisenoTornillos \<Rightarrow> real" where
  "area_transversal_neta self =
     (let rango_validez = RangoValidez_init (rdt_d_0 self);
          p_2 = rango_validez_p_2 rango_validez
      in (p_2 - rdt_d_0 self) * rdt_t self)"

definition relacion_tornillos_seccion_neta_entre_tornillos_totales ::
  "ResistenciasDisenoTornillos \<Rightarrow> real list" where
  "relacion_tornillos_seccion_neta_entre_tornillos_totales self = [2.0, 1.0, 0.5, 1 / 3]"

definition coeficiente_u :: "ResistenciasDisenoTornillos \<Rightarrow> real" where
  "coeficiente_u self =
     (let rango_validez = RangoValidez_init (rdt_d_0 self);
          e_2 = rango_validez_e_2 rango_validez;
          p_2 = rango_validez_p_2 rango_validez;
          u_1 = 2 * e_2;
          u_2 = p_2
      in min u_1 u_2)"

text \<open>
  One element of the generator expression of \<^verbatim>\<open>F_nRd_1\<close>:
  \<^verbatim>\<open>(1 + 3 * ri * (self.d_0 / u - 0.3)) * A_net * self.f_u / self.g_M2\<close>.
  Both divisions may raise.
\<close>

definition F_nRd_1i :: "ResistenciasDisenoTornillos \<Rightarrow> real \<Rightarrow> real \<Rightarrow> real \<Rightarrow> error + real" where
  "F_nRd_1i self u A_net ri =
     (case py_truediv (rdt_d_0 self) u of
        Inl e \<Rightarrow> Inl e
      | Inr q \<Rightarrow> py_truediv ((1 + 3 * ri * (q - 0.3)) * A_net * rdt_f_u self) (rdt_g_M2 self))"

text \<open>\<^verbatim>\<open>tuple(f(x) for x in xs)\<close>: the elements in order, stopping at the first exception.\<close>

fun tuple_of :: "('a \<Rightarrow> error + 'b) \<Rightarrow> 'a list \<Rightarrow> error + 'b list" where
  "tuple_of f [] = Inr []"
| "tuple_of f (x # xs) =
     (case f x of
        Inl e \<Rightarrow> Inl e
      | Inr y \<Rightarrow> (case tuple_of f xs of Inl e \<Rightarrow> Inl e | Inr ys \<Rightarrow> Inr (y # ys)))"

definition capacidad_resistente_area_transversal_neta_F_nRd ::
  "ResistenciasDisenoTornillos \<Rightarrow> error + real list" where
  "capacidad_resistente_area_transversal_neta_F_nRd self =
     (let r = relacion_tornillos_seccion_neta_entre_tornillos_totales self;
          u = coeficiente_u self;
          A_net = area_transversal_neta self
      in case tuple_of (F_nRd_1i self u A_net) r of
           Inl e \<Rightarrow> Inl e
         | Inr F_nRd_1 \<Rightarrow>
             (case py_truediv (A_net * rdt_f_u self) (rdt_g_M2 self) of
                Inl e \<Rightarrow> Inl e
              | Inr F_nRd_2 \<Rightarrow> Inr (map (\<lambda>F_nRd_1i. min F_nRd_1i F_nRd_2) F_nRd_1)))"

text \<open>
  \<^verbatim>\<open>limite_elastico_tornillo_f_yb\<close>: \<open>n1\<close> is element 0 of
  \<^verbatim>\<open>self.grado.split('.', 1)\<close>, \<open>n2\<close> is read from element 2 of the same split.
\<close>

definition limite_elastico_tornillo_f_yb :: "ResistenciasDisenoTornillos \<Rightarrow> error + int" where
  "limite_elastico_tornillo_f_yb self =
     (case py_getitem (py_split (CHR ''.'') 1 (rdt_grado self)) 0 of
        Inl e \<Rightarrow> Inl e
      | Inr s1 \<Rightarrow>
          (case py_int s1 of
             Inl e \<Rightarrow> Inl e
           | Inr n1 \<Rightarrow>
               (case py_getitem (py_split (CHR ''.'') 1 (rdt_grado self)) 2 of
                  Inl e \<Rightarrow> Inl e
                | Inr s2 \<Rightarrow>
                    (case py_int s2 of
                       Inl e \<Rightarrow> Inl e
                     | Inr n2 \<Rightarrow> Inr (n1 * n2 * 10)))))"

definition resistencia_ultima_traccion_tornillo_f_ub ::
  "ResistenciasDisenoTornillos \<Rightarrow> error + int" where
  "resistencia_ultima_traccion_tornillo_f_ub self =
     (case py_getitem (py_split (CHR ''.'') 1 (rdt_grado self)) 0 of
        Inl e \<Rightarrow> Inl e
      | Inr s1 \<Rightarrow>
          (case py_int s1 of
             Inl e \<Rightarrow> Inl e
           | Inr n1 \<Rightarrow> Inr (n1 * 100)))"

text \<open>
  \<^verbatim>\<open>resistencia_cortante_F_vRd\<close>: \<open>f_ub\<close> first; the \<^verbatim>\<open>else\<close> branch prints and
  falls through to \<^verbatim>\<open>return F_vRd\<close> with \<^verbatim>\<open>F_vRd\<close> unassigned.
\<close>

definition resistencia_cortante_F_vRd :: "ResistenciasDisenoTornillos \<Rightarrow> real printed" where
  "resistencia_cortante_F_vRd self =
     (case resistencia_ultima_traccion_tornillo_f_ub self of
        Inl e \<Rightarrow> ([], Inl e)
      | Inr f_ub \<Rightarrow>
          (if rdt_grado self \<in> set [''4.6'', ''5.6'', ''8.8'']
             then ([], py_truediv (0.6 * real_of_int f_ub * rdt_A_s self) (rdt_g_M2 self))
           else if rdt_grado self \<in> set [''4.8'', ''5.8'', ''6.8'', ''10.9'']
             then ([], py_truediv (0.5 * real_of_int f_ub * rdt_A_s self) (rdt_g_M2 self))
           else ([''Algo no cuadra.''], Inl (UnboundLocalError ''F_vRd''))))"

section \<open>Properties of the EN 1993-1-8 engine\<close>

text \<open>An object that \<^verbatim>\<open>__init__\<close> has built holds its arguments, with \<open>g_M2\<close> and \<open>f_u\<close> positive.\<close>

lemma init_Inr:
  "ResistenciaCalculo_init d A A_s grado f_ub t f_u g_M2 = Inr self \<Longrightarrow>
     0 < g_M2 \<and> 0 < f_u \<and>
     self = \<lparr>rc_d = d, rc_A = A, rc_A_s = A_s, rc_grado = grado, rc_f_ub = f_ub,
             rc_t = t, rc_f_u = f_u, rc_g_M2 = g_M2\<rparr>"
  by (auto simp: ResistenciaCalculo_init_def split: if_splits)

text \<open>The bolt of the spec's end-to-end example: M20, grade 8.8, 15 mm plate.\<close>

lemma init_sample:
  "ResistenciaCalculo_init 20 314 245 ''8.8'' 800 15 430 1.25 =
     Inr \<lparr>rc_d = 20, rc_A = 314, rc_A_s = 245, rc_grado = ''8.8'', rc_f_ub = 800,
          rc_t = 15, rc_f_u = 430, rc_g_M2 = 1.25\<rparr>"
  by (simp add: ResistenciaCalculo_init_def)

text \<open>
  C1. For every bolt built by the constructor with one of the seven grades, and either
  value of the thread flag, \<open>resistencia_cortante\<close> returns
  \<open>alpha_v * f_ub * A_eff / g_M2\<close>: \<open>A_eff\<close> is \<open>A_s\<close> when the shear plane crosses the
  thread and \<open>A\<close> otherwise; \<open>alpha_v\<close> is 0.6 when the plane avoids the thread, 0.6 for
  the grades 4.6, 5.6, 8.8 and 0.5 for the grades 4.8, 5.8, 6.8, 10.9 when it crosses
  it. The witness is the spec's example: 94080 N.
\<close>

theorem resistencia_cortante_formula:
  assumes init: "ResistenciaCalculo_init d A A_s grado f_ub t f_u g_M2 = Inr self"
    and grado: "grado \<in> {''4.6'', ''4.8'', ''5.6'', ''5.8'', ''6.8'', ''8.8'', ''10.9''}"
  shows "resistencia_cortante self plano =
           Inr ((if plano then (if grado \<in> {''4.6'', ''5.6'', ''8.8''} then 0.6 else 0.5) else 0.6)
                * f_ub * (if plano then A_s else A) / g_M2)"
proof -
  from init_Inr [OF init] have f: "rc_g_M2 self \<noteq> 0" "rc_A self = A" "rc_A_s self = A_s"
    "rc_grado self = grado" "rc_f_ub self = f_ub" "rc_g_M2 self = g_M2"
    by auto
  from grado consider "grado = ''4.6''" | "grado = ''4.8''" | "grado = ''5.6''" | "grado = ''5.8''"
    | "grado = ''6.8''" | "grado = ''8.8''" | "grado = ''10.9''"
    by blast
  then show ?thesis
    by cases
      (use f in \<open>simp_all add: resistencia_cortante_def coeficiente_cortante_alfa_v_def py_truediv_def\<close>)
qed

theorem resistencia_cortante_formula_witness:
  "ResistenciaCalculo_init 20 314 245 ''8.8'' 800 15 430 1.25 =
      Inr \<lparr>rc_d = 20, rc_A = 314, rc_A_s = 245, rc_grado = ''8.8'', rc_f_ub = 800,
           rc_t = 15, rc_f_u = 430, rc_g_M2 = 1.25\<rparr>
   \<and> ''8.8'' \<in> {''4.6'', ''4.8'', ''5.6'', ''5.8'', ''6.8'', ''8.8'', ''10.9''}
   \<and> resistencia_cortante \<lparr>rc_d = 20, rc_A = 314, rc_A_s = 245, rc_grado = ''8.8'', rc_f_ub = 800,
           rc_t = 15, rc_f_u = 430, rc_g_M2 = 1.25\<rparr> True = Inr 94080"
proof -
  have g: "''8.8'' \<in> {''4.6'', ''4.8'', ''5.6'', ''5.8'', ''6.8'', ''8.8'', ''10.9''}" by simp
  show ?thesis
    using init_sample resistencia_cortante_formula [OF init_sample g, of True] by simp
qed

text \<open>
  C3. For every \<open>e_2\<close>, \<open>p_2\<close> and \<open>d_0 > 0\<close>, \<open>coeficiente_k_1\<close> returns
  \<open>min (2.8 e_2 / d_0 - 1.7) (1.4 p_2 / d_0 - 1.7) 2.5\<close> for the position "edge" and
  \<open>min (1.4 p_2 / d_0 - 1.7) 2.5\<close> for the position "inner".
\<close>

theorem coeficiente_k_1_formula:
  assumes "0 < d_0"
  shows "coeficiente_k_1 self e_2 p_2 d_0 ''edge'' =
           Inr (min (2.8 * e_2 / d_0 - 1.7) (min (1.4 * p_2 / d_0 - 1.7) 2.5))
       \<and> coeficiente_k_1 self e_2 p_2 d_0 ''inner'' = Inr (min (1.4 * p_2 / d_0 - 1.7) 2.5)"
  using assms by (simp add: coeficiente_k_1_def Let_def)

theorem coeficiente_k_1_formula_witness:
  "(0::real) < 22
   \<and> coeficiente_k_1 \<lparr>rc_d = 20, rc_A = 314, rc_A_s = 245, rc_grado = ''8.8'', rc_f_ub = 800,
          rc_t = 15, rc_f_u = 430, rc_g_M2 = 1.25\<rparr> 33 55 22 ''edge'' = Inr 1.8
   \<and> coeficiente_k_1 \<lparr>rc_d = 20, rc_A = 314, rc_A_s = 245, rc_grado = ''8.8'', rc_f_ub = 800,
          rc_t = 15, rc_f_u = 430, rc_g_M2 = 1.25\<rparr> 33 55 22 ''inner'' = Inr 1.8"
proof -
  have h: "(0::real) < 22" by simp
  show ?thesis
    using coeficiente_k_1_formula [OF h, of "\<lparr>rc_d = 20, rc_A = 314, rc_A_s = 245,
          rc_grado = ''8.8'', rc_f_ub = 800, rc_t = 15, rc_f_u = 430, rc_g_M2 = 1.25\<rparr>" 33 55]
    by simp
qed

text \<open>
  C4. For a bolt built by the constructor, \<open>d_0 > 0\<close> and a position in
  \<open>{end, inner}\<close>, \<open>coeficiente_alfa_b\<close> returns (printing nothing)
  \<open>min alfa_d (f_ub / f_u) 1\<close>, where \<open>alfa_d\<close> is what \<open>coeficiente_alfa_d\<close> returns; the
  value is at most 1 and at most \<open>f_ub / f_u\<close>. The witness is an end bolt whose
  \<open>e_1 / (3 d_0)\<close> exceeds both caps.
\<close>

theorem coeficiente_alfa_b_capped:
  assumes init: "ResistenciaCalculo_init d A A_s grado f_ub t f_u g_M2 = Inr self"
    and d_0: "0 < d_0"
    and posicion: "posicion \<in> {''end'', ''inner''}"
  shows "\<exists>alfa_d alfa_b.
           coeficiente_alfa_d self e_1 p_1 d_0 posicion = ([], Inr alfa_d)
         \<and> coeficiente_alfa_b self e_1 p_1 d_0 posicion = ([], Inr alfa_b)
         \<and> alfa_b = min alfa_d (min (f_ub / f_u) 1)
         \<and> alfa_b \<le> 1 \<and> alfa_b \<le> f_ub / f_u"
proof -
  from init_Inr [OF init] have f: "rc_f_u self \<noteq> 0" "rc_f_u self = f_u" "rc_f_ub self = f_ub"
    by auto
  have caps: "min a (min b 1) \<le> 1 \<and> min a (min b 1) \<le> b" for a b :: real
    by (simp add: min_le_iff_disj)
  from posicion consider "posicion = ''end''" | "posicion = ''inner''" by blast
  then show ?thesis
    by cases
      (use d_0 f caps in \<open>simp_all add: coeficiente_alfa_b_def coeficiente_alfa_d_def py_truediv_def\<close>)
qed

theorem coeficiente_alfa_b_capped_witness:
  "ResistenciaCalculo_init 20 314 245 ''8.8'' 800 15 430 1.25 =
     Inr \<lparr>rc_d = 20, rc_A = 314, rc_A_s = 245, rc_grado = ''8.8'', rc_f_ub = 800,
          rc_t = 15, rc_f_u = 430, rc_g_M2 = 1.25\<rparr>
   \<and> (0::real) < 22 \<and> ''end'' \<in> {''end'', ''inner''}
   \<and> (800::real) / 430 < 200 / (3 * 22) \<and> (1::real) < 200 / (3 * 22)
   \<and> coeficiente_alfa_b \<lparr>rc_d = 20, rc_A = 314, rc_A_s = 245, rc_grado = ''8.8'', rc_f_ub = 800,
          rc_t = 15, rc_f_u = 430, rc_g_M2 = 1.25\<rparr> 200 60 22 ''end'' = ([], Inr 1)"
proof -
  have h: "(0::real) < 22" by simp
  have p: "''end'' \<in> {''end'', ''inner''}" by simp
  show ?thesis
    using coeficiente_alfa_b_capped [OF init_sample h p, of 200 60] init_sample
    by (auto simp: coeficiente_alfa_d_def)
qed

text \<open>
  C2. The base bearing resistance is \<open>k_1 * alfa_b * f_u * d * t / g_M2\<close>, the
  oversized-hole and slotted-hole variants are 0.8 and 0.6 times it, and all three are
  to reject a position tag outside its two options in the same way. The code does not:
  at the tag "edge" for \<open>posicion_ad\<close> (a valid bolt, valid geometry, \<open>d_0 = 22\<close>) the
  base and the oversized-hole methods print a line and fail with \<open>UnboundLocalError\<close>
  from \<open>coeficiente_alfa_d\<close>, while the slotted-hole method raises its \<open>ValueError\<close>.
\<close>

theorem bearing_position_validation_differs:
  "capacidad_resistente_F_bRd
      \<lparr>rc_d = 20, rc_A = 314, rc_A_s = 245, rc_grado = ''8.8'', rc_f_ub = 800,
       rc_t = 15, rc_f_u = 430, rc_g_M2 = 1.25\<rparr> 30 33 60 55 22 ''edge'' ''edge''
     = ([''Algo ha ido mal :(''], Inl (UnboundLocalError ''alfa_d''))
   \<and> capacidad_resistente_taladro_holgura_F_bRd
      \<lparr>rc_d = 20, rc_A = 314, rc_A_s = 245, rc_grado = ''8.8'', rc_f_ub = 800,
       rc_t = 15, rc_f_u = 430, rc_g_M2 = 1.25\<rparr> 30 33 60 55 22 ''edge'' ''edge''
     = ([''Algo ha ido mal :(''], Inl (UnboundLocalError ''alfa_d''))
   \<and> capacidad_resistente_taladro_rasgado_F_bRd
      \<lparr>rc_d = 20, rc_A = 314, rc_A_s = 245, rc_grado = ''8.8'', rc_f_ub = 800,
       rc_t = 15, rc_f_u = 430, rc_g_M2 = 1.25\<rparr> 30 33 60 55 22 ''edge'' ''edge''
     = ([], Inl (ValueError Posicion_no_valida_edge_inner))"
  by (simp add: capacidad_resistente_F_bRd_def capacidad_resistente_taladro_holgura_F_bRd_def
      capacidad_resistente_taladro_rasgado_F_bRd_def coeficiente_k_1_def coeficiente_alfa_b_def
      coeficiente_alfa_d_def)

text \<open>
  X1. What holds of the three bearing methods on valid input: for a bolt built by the
  constructor, \<open>d_0 > 0\<close> and valid position tags, nothing is printed, the base method
  returns \<open>k_1 * alfa_b * f_u * d * t / g_M2\<close> with the values of \<open>coeficiente_k_1\<close> and
  \<open>coeficiente_alfa_b\<close>, and the two variants return 0.8 and 0.6 times that.
\<close>

theorem bearing_resistance_valid_input:
  assumes init: "ResistenciaCalculo_init d A A_s grado f_ub t f_u g_M2 = Inr self"
    and d_0: "0 < d_0"
    and posicion_k1: "posicion_k1 \<in> {''edge'', ''inner''}"
    and posicion_ad: "posicion_ad \<in> {''end'', ''inner''}"
  shows "\<exists>k_1 alfa_b.
           coeficiente_k_1 self e_2 p_2 d_0 posicion_k1 = Inr k_1
         \<and> coeficiente_alfa_b self e_1 p_1 d_0 posicion_ad = ([], Inr alfa_b)
         \<and> capacidad_resistente_F_bRd self e_1 e_2 p_1 p_2 d_0 posicion_k1 posicion_ad =
             ([], Inr (k_1 * alfa_b * f_u * d * t / g_M2))
         \<and> capacidad_resistente_taladro_holgura_F_bRd self e_1 e_2 p_1 p_2 d_0
               posicion_k1 posicion_ad =
             ([], Inr (0.8 * (k_1 * alfa_b * f_u * d * t / g_M2)))
         \<and> capacidad_resistente_taladro_rasgado_F_bRd self e_1 e_2 p_1 p_2 d_0
               posicion_k1 posicion_ad =
             ([], Inr (0.6 * (k_1 * alfa_b * f_u * d * t / g_M2)))"
proof -
  from init_Inr [OF init] have f: "rc_f_u self \<noteq> 0" "rc_g_M2 self \<noteq> 0" "rc_f_u self = f_u"
    "rc_g_M2 self = g_M2" "rc_d self = d" "rc_t self = t"
    by auto
  from posicion_k1 obtain k_1 where k: "coeficiente_k_1 self e_2 p_2 d_0 posicion_k1 = Inr k_1"
    using d_0 by (auto simp: coeficiente_k_1_def Let_def)
  from posicion_ad obtain alfa_b where
    a: "coeficiente_alfa_b self e_1 p_1 d_0 posicion_ad = ([], Inr alfa_b)"
    using d_0 f by (auto simp: coeficiente_alfa_b_def coeficiente_alfa_d_def py_truediv_def)
  have b: "capacidad_resistente_F_bRd self e_1 e_2 p_1 p_2 d_0 posicion_k1 posicion_ad =
             ([], Inr (k_1 * alfa_b * f_u * d * t / g_M2))"
    using f by (simp add: capacidad_resistente_F_bRd_def k a py_truediv_def)
  have h: "capacidad_resistente_taladro_holgura_F_bRd self e_1 e_2 p_1 p_2 d_0
               posicion_k1 posicion_ad =
             ([], Inr (0.8 * (k_1 * alfa_b * f_u * d * t / g_M2)))"
    by (simp add: capacidad_resistente_taladro_holgura_F_bRd_def b)
  have r: "capacidad_resistente_taladro_rasgado_F_bRd self e_1 e_2 p_1 p_2 d_0
               posicion_k1 posicion_ad =
             ([], Inr (0.6 * (k_1 * alfa_b * f_u * d * t / g_M2)))"
    using posicion_k1 posicion_ad
    by (simp add: capacidad_resistente_taladro_rasgado_F_bRd_def b)
  from k a b h r show ?thesis by blast
qed

theorem bearing_resistance_valid_input_witness:
  "ResistenciaCalculo_init 20 314 245 ''8.8'' 800 15 430 1.25 =
     Inr \<lparr>rc_d = 20, rc_A = 314, rc_A_s = 245, rc_grado = ''8.8'', rc_f_ub = 800,
          rc_t = 15, rc_f_u = 430, rc_g_M2 = 1.25\<rparr>
   \<and> (0::real) < 22 \<and> ''edge'' \<in> {''edge'', ''inner''} \<and> ''end'' \<in> {''end'', ''inner''}
   \<and> capacidad_resistente_F_bRd
        \<lparr>rc_d = 20, rc_A = 314, rc_A_s = 245, rc_grado = ''8.8'', rc_f_ub = 800,
          rc_t = 15, rc_f_u = 430, rc_g_M2 = 1.25\<rparr> 33 33 60 55 22 ''edge'' ''end''
       = ([], Inr 92880)
   \<and> capacidad_resistente_taladro_holgura_F_bRd
        \<lparr>rc_d = 20, rc_A = 314, rc_A_s = 245, rc_grado = ''8.8'', rc_f_ub = 800,
          rc_t = 15, rc_f_u = 430, rc_g_M2 = 1.25\<rparr> 33 33 60 55 22 ''edge'' ''end''
       = ([], Inr 74304)
   \<and> capacidad_resistente_taladro_rasgado_F_bRd
        \<lparr>rc_d = 20, rc_A = 314, rc_A_s = 245, rc_grado = ''8.8'', rc_f_ub = 800,
          rc_t = 15, rc_f_u = 430, rc_g_M2 = 1.25\<rparr> 33 33 60 55 22 ''edge'' ''end''
       = ([], Inr 55728)"
proof -
  let ?self = "\<lparr>rc_d = 20, rc_A = 314, rc_A_s = 245, rc_grado = ''8.8'', rc_f_ub = 800,
          rc_t = 15, rc_f_u = 430, rc_g_M2 = 1.25\<rparr>"
  have h: "(0::real) < 22" by simp
  have k: "''edge'' \<in> {''edge'', ''inner''}" by simp
  have a: "''end'' \<in> {''end'', ''inner''}" by simp
  from bearing_resistance_valid_input [OF init_sample h k a, of 33 55 33 60]
  obtain k_1 alfa_b where
    k_1: "coeficiente_k_1 ?self 33 55 22 ''edge'' = Inr k_1" and
    alfa_b: "coeficiente_alfa_b ?self 33 60 22 ''end'' = ([], Inr alfa_b)" and
    F: "capacidad_resistente_F_bRd ?self 33 33 60 55 22 ''edge'' ''end'' =
          ([], Inr (k_1 * alfa_b * 430 * 20 * 15 / 1.25))"
       "capacidad_resistente_taladro_holgura_F_bRd ?self 33 33 60 55 22 ''edge'' ''end'' =
          ([], Inr (0.8 * (k_1 * alfa_b * 430 * 20 * 15 / 1.25)))"
       "capacidad_resistente_taladro_rasgado_F_bRd ?self 33 33 60 55 22 ''edge'' ''end'' =
          ([], Inr (0.6 * (k_1 * alfa_b * 430 * 20 * 15 / 1.25)))"
    by blast
  have kk: "k_1 = 9 / 5"
    using k_1 by (simp add: coeficiente_k_1_def)
  have aa: "alfa_b = 1 / 2"
    using alfa_b by (simp add: coeficiente_alfa_b_def coeficiente_alfa_d_def py_truediv_def)
  from init_sample F [unfolded kk aa] show ?thesis
    by simp
qed

text \<open>
  C5. Each coefficient method is to reject \<open>d_0 \<le> 0\<close> and a position tag outside its
  set with a dedicated error. For the position tag of \<open>coeficiente_alfa_d\<close> the code
  does not: at "edge" (with \<open>d_0 = 22\<close>) it prints a line and fails with
  \<open>UnboundLocalError\<close> on its unassigned \<open>alfa_d\<close>.
\<close>

theorem coeficiente_alfa_d_unknown_position:
  "coeficiente_alfa_d
      \<lparr>rc_d = 20, rc_A = 314, rc_A_s = 245, rc_grado = ''8.8'', rc_f_ub = 800,
       rc_t = 15, rc_f_u = 430, rc_g_M2 = 1.25\<rparr> 30 60 22 ''edge''
     = ([''Algo ha ido mal :(''], Inl (UnboundLocalError ''alfa_d''))"
  by (simp add: coeficiente_alfa_d_def)

text \<open>
  X2. What holds of the checks: with \<open>d_0 \<le> 0\<close> the three coefficient methods raise the
  \<open>ValueError\<close> on \<open>d_0\<close>, whatever the position tag, and with \<open>d_0 > 0\<close>
  \<open>coeficiente_k_1\<close> raises the \<open>ValueError\<close> on the position for every tag other than
  "edge" and "inner".
\<close>

theorem coefficient_checks:
  "(d_0 \<le> 0 \<longrightarrow>
      coeficiente_k_1 self e_2 p_2 d_0 posicion = Inl (ValueError D_0_debe_ser_positivo)
    \<and> coeficiente_alfa_d self e_1 p_1 d_0 posicion = ([], Inl (ValueError D_0_debe_ser_positivo))
    \<and> coeficiente_alfa_b self e_1 p_1 d_0 posicion = ([], Inl (ValueError D_0_debe_ser_positivo)))
   \<and> (0 < d_0 \<and> posicion \<notin> {''edge'', ''inner''} \<longrightarrow>
      coeficiente_k_1 self e_2 p_2 d_0 posicion = Inl (ValueError Posicion_no_valida_edge_inner))"
  by (simp add: coeficiente_k_1_def coeficiente_alfa_d_def coeficiente_alfa_b_def)

theorem coefficient_checks_witness:
  "(0::real) \<le> 0
   \<and> coeficiente_alfa_b \<lparr>rc_d = 20, rc_A = 314, rc_A_s = 245, rc_grado = ''8.8'', rc_f_ub = 800,
          rc_t = 15, rc_f_u = 430, rc_g_M2 = 1.25\<rparr> 30 60 0 ''end''
       = ([], Inl (ValueError D_0_debe_ser_positivo))
   \<and> (0::real) < 22 \<and> ''end'' \<notin> {''edge'', ''inner''}
   \<and> coeficiente_k_1 \<lparr>rc_d = 20, rc_A = 314, rc_A_s = 245, rc_grado = ''8.8'', rc_f_ub = 800,
          rc_t = 15, rc_f_u = 430, rc_g_M2 = 1.25\<rparr> 33 55 22 ''end''
       = Inl (ValueError Posicion_no_valida_edge_inner)"
  using
    coefficient_checks [of 0 "\<lparr>rc_d = 20, rc_A = 314, rc_A_s = 245, rc_grado = ''8.8'',
      rc_f_ub = 800, rc_t = 15, rc_f_u = 430, rc_g_M2 = 1.25\<rparr>" 33 55 "''end''" 30 60]
    coefficient_checks [of 22 "\<lparr>rc_d = 20, rc_A = 314, rc_A_s = 245, rc_grado = ''8.8'',
      rc_f_ub = 800, rc_t = 15, rc_f_u = 430, rc_g_M2 = 1.25\<rparr>" 33 55 "''end''" 30 60]
  by simp

text \<open>
  C9. The claim reads \<open>d_m = s / cos 30\<degree>\<close>. The code returns \<open>1.07735 * s\<close>, the mean of
  the distance across flats \<open>s\<close> and the distance across points \<open>s / cos 30\<degree> = 1.1547 s\<close>,
  so the two differ for every \<open>s > 0\<close>; here at \<open>s = 30\<close>.
\<close>

theorem d_m_is_not_s_over_cos_30:
  "media_de_distancias_entre_vertices_y_caras_planas_d_m
      \<lparr>rc_d = 20, rc_A = 314, rc_A_s = 245, rc_grado = ''8.8'', rc_f_ub = 800,
       rc_t = 15, rc_f_u = 430, rc_g_M2 = 1.25\<rparr> 30 \<noteq> 30 / cos (pi / 6)"
proof
  assume "media_de_distancias_entre_vertices_y_caras_planas_d_m
      \<lparr>rc_d = 20, rc_A = 314, rc_A_s = 245, rc_grado = ''8.8'', rc_f_ub = 800,
       rc_t = 15, rc_f_u = 430, rc_g_M2 = 1.25\<rparr> 30 = 30 / cos (pi / 6)"
  then have "1.07735 * 30 = 30 / (sqrt 3 / 2)"
    by (simp add: media_de_distancias_entre_vertices_y_caras_planas_d_m_def cos_30)
  then have e: "sqrt 3 * (1.07735 * 30) = 60"
    by (simp add: field_simps)
  have sq: "(sqrt 3 * c)\<^sup>2 = 3 * c\<^sup>2" for c :: real
    by (simp add: power_mult_distrib)
  have "3 * (1.07735 * 30)\<^sup>2 = (sqrt 3 * (1.07735 * 30))\<^sup>2"
    by (rule sq [symmetric])
  also have "\<dots> = 60\<^sup>2"
    by (simp only: e)
  finally show False
    by (simp add: power2_eq_square)
qed

text \<open>
  C9, as amended. For every bolt built by the constructor and every \<open>s\<close>, the mean
  diameter is \<open>d_m = 1.07735 * s\<close> and \<open>resistencia_punzonamiento_B_pRd\<close> returns
  \<open>0.6 * pi * d_m * t * f_u / g_M2\<close>.
\<close>

theorem punzonamiento_formula:
  assumes init: "ResistenciaCalculo_init d A A_s grado f_ub t f_u g_M2 = Inr self"
  shows "media_de_distancias_entre_vertices_y_caras_planas_d_m self s = 1.07735 * s
       \<and> resistencia_punzonamiento_B_pRd self s =
           Inr (0.6 * pi * media_de_distancias_entre_vertices_y_caras_planas_d_m self s
                  * t * f_u / g_M2)"
proof -
  from init_Inr [OF init] have f: "rc_g_M2 self \<noteq> 0" "rc_g_M2 self = g_M2" "rc_t self = t"
    "rc_f_u self = f_u"
    by auto
  show ?thesis
    using f by (simp add: resistencia_punzonamiento_B_pRd_def py_truediv_def Let_def
        media_de_distancias_entre_vertices_y_caras_planas_d_m_def)
qed

theorem punzonamiento_formula_witness:
  "ResistenciaCalculo_init 20 314 245 ''8.8'' 800 15 430 1.25 =
     Inr \<lparr>rc_d = 20, rc_A = 314, rc_A_s = 245, rc_grado = ''8.8'', rc_f_ub = 800,
          rc_t = 15, rc_f_u = 430, rc_g_M2 = 1.25\<rparr>
   \<and> media_de_distancias_entre_vertices_y_caras_planas_d_m
        \<lparr>rc_d = 20, rc_A = 314, rc_A_s = 245, rc_grado = ''8.8'', rc_f_ub = 800,
          rc_t = 15, rc_f_u = 430, rc_g_M2 = 1.25\<rparr> 30 = 32.3205
   \<and> resistencia_punzonamiento_B_pRd
        \<lparr>rc_d = 20, rc_A = 314, rc_A_s = 245, rc_grado = ''8.8'', rc_f_ub = 800,
          rc_t = 15, rc_f_u = 430, rc_g_M2 = 1.25\<rparr> 30 = Inr (100064.268 * pi)"
  using init_sample punzonamiento_formula [OF init_sample, of 30]
  by (simp add: media_de_distancias_entre_vertices_y_caras_planas_d_m_def)

section \<open>Properties of the EN 1993-1-3 engine\<close>

text \<open>With the validity-range defaults, \<open>u = 3 d_0\<close> and \<open>A_net = 2 d_0 t\<close>.\<close>

lemma coeficiente_u_eq: "coeficiente_u self = 3 * rdt_d_0 self"
  by (simp add: coeficiente_u_def RangoValidez_init_def rango_validez_e_2_def
      rango_validez_p_2_def Let_def)

lemma area_transversal_neta_eq: "area_transversal_neta self = 2 * rdt_d_0 self * rdt_t self"
  by (simp add: area_transversal_neta_def RangoValidez_init_def rango_validez_p_2_def Let_def
      algebra_simps)

lemma F_nRd_1i_Inr:
  "u \<noteq> 0 \<Longrightarrow> rdt_g_M2 self \<noteq> 0 \<Longrightarrow>
     F_nRd_1i self u A_net ri =
       Inr ((1 + 3 * ri * (rdt_d_0 self / u - 0.3)) * A_net * rdt_f_u self / rdt_g_M2 self)"
  by (simp add: F_nRd_1i_def py_truediv_def)

lemma tuple_of_Inr:
  "(\<And>x. x \<in> set xs \<Longrightarrow> f x = Inr (g x)) \<Longrightarrow> tuple_of f xs = Inr (map g xs)"
  by (induction xs) simp_all

lemma F_nRd_value:
  assumes d_0: "rdt_d_0 self \<noteq> 0" and g_M2: "rdt_g_M2 self \<noteq> 0"
  shows "capacidad_resistente_area_transversal_neta_F_nRd self =
          Inr (map (\<lambda>r. min ((1 + 3 * r * (rdt_d_0 self / coeficiente_u self - 0.3))
                                 * area_transversal_neta self * rdt_f_u self / rdt_g_M2 self)
                              (area_transversal_neta self * rdt_f_u self / rdt_g_M2 self))
                    [2, 1, 1 / 2, 1 / 3])"
proof -
  have u: "coeficiente_u self \<noteq> 0"
    using d_0 by (simp add: coeficiente_u_eq)
  have t: "tuple_of (F_nRd_1i self (coeficiente_u self) (area_transversal_neta self))
             [2, 1, 1 / 2, 1 / 3] =
           Inr (map (\<lambda>r. (1 + 3 * r * (rdt_d_0 self / coeficiente_u self - 0.3))
                           * area_transversal_neta self * rdt_f_u self / rdt_g_M2 self)
                    [2, 1, 1 / 2, 1 / 3])"
    by (rule tuple_of_Inr) (rule F_nRd_1i_Inr [OF u g_M2])
  have r: "relacion_tornillos_seccion_neta_entre_tornillos_totales self = [2, 1, 1 / 2, 1 / 3]"
    by (simp add: relacion_tornillos_seccion_neta_entre_tornillos_totales_def)
  show ?thesis
    unfolding capacidad_resistente_area_transversal_neta_F_nRd_def Let_def r t
    using g_M2 by (simp add: py_truediv_def)
qed

text \<open>
  C8. When \<open>d_0\<close> and \<open>g_M2\<close> are not zero (otherwise a division raises),
  \<open>capacidad_resistente_area_transversal_neta_F_nRd\<close> returns four values, one per ratio
  \<open>r\<close> of 2, 1, 1/2, 1/3 in this order, each
  \<open>min ((1 + 3 r (d_0 / u - 0.3)) A_net f_u / g_M2) (A_net f_u / g_M2)\<close>, where
  \<open>u = min (2 e_2) p_2\<close> is computed from the validity-range defaults.
\<close>

theorem F_nRd_four_entries:
  assumes d_0: "rdt_d_0 self \<noteq> 0" and g_M2: "rdt_g_M2 self \<noteq> 0"
  shows "coeficiente_u self =
           min (2 * rango_validez_e_2 (RangoValidez_init (rdt_d_0 self)))
               (rango_validez_p_2 (RangoValidez_init (rdt_d_0 self)))
       \<and> (\<exists>F_nRd. capacidad_resistente_area_transversal_neta_F_nRd self = Inr F_nRd
            \<and> length F_nRd = 4
            \<and> F_nRd =
                map (\<lambda>r. min ((1 + 3 * r * (rdt_d_0 self / coeficiente_u self - 0.3))
                                 * area_transversal_neta self * rdt_f_u self / rdt_g_M2 self)
                              (area_transversal_neta self * rdt_f_u self / rdt_g_M2 self))
                    [2, 1, 1 / 2, 1 / 3])"
proof -
  have "coeficiente_u self =
           min (2 * rango_validez_e_2 (RangoValidez_init (rdt_d_0 self)))
               (rango_validez_p_2 (RangoValidez_init (rdt_d_0 self)))"
    by (simp add: coeficiente_u_def Let_def)
  with F_nRd_value [OF d_0 g_M2] show ?thesis by simp
qed

theorem F_nRd_four_entries_witness:
  "rdt_d_0 \<lparr>rdt_d = 10, rdt_A_s = 58, rdt_grado = ''8.8'', rdt_d_0 = 12, rdt_t = 2,
            rdt_f_u = 450, rdt_g_M2 = 1.25\<rparr> \<noteq> 0
   \<and> rdt_g_M2 \<lparr>rdt_d = 10, rdt_A_s = 58, rdt_grado = ''8.8'', rdt_d_0 = 12, rdt_t = 2,
            rdt_f_u = 450, rdt_g_M2 = 1.25\<rparr> \<noteq> 0
   \<and> coeficiente_u \<lparr>rdt_d = 10, rdt_A_s = 58, rdt_grado = ''8.8'', rdt_d_0 = 12, rdt_t = 2,
            rdt_f_u = 450, rdt_g_M2 = 1.25\<rparr> = 36
   \<and> capacidad_resistente_area_transversal_neta_F_nRd
        \<lparr>rdt_d = 10, rdt_A_s = 58, rdt_grado = ''8.8'', rdt_d_0 = 12, rdt_t = 2,
            rdt_f_u = 450, rdt_g_M2 = 1.25\<rparr> = Inr [17280, 17280, 17280, 17280]"
proof -
  have d: "rdt_d_0 \<lparr>rdt_d = 10, rdt_A_s = 58, rdt_grado = ''8.8'', rdt_d_0 = 12, rdt_t = 2,
            rdt_f_u = 450, rdt_g_M2 = 1.25\<rparr> \<noteq> 0" by simp
  have g: "rdt_g_M2 \<lparr>rdt_d = 10, rdt_A_s = 58, rdt_grado = ''8.8'', rdt_d_0 = 12, rdt_t = 2,
            rdt_f_u = 450, rdt_g_M2 = 1.25\<rparr> \<noteq> 0" by simp
  show ?thesis
    using F_nRd_four_entries [OF d g]
    by (auto simp: coeficiente_u_eq area_transversal_neta_eq)
qed

text \<open>
  C10. For \<open>d_0\<close>, \<open>t\<close>, \<open>f_u\<close> and \<open>g_M2\<close> all positive: \<open>u = 3 d_0\<close>,
  \<open>A_net = 2 d_0 t\<close>, the ratio-dependent candidate is strictly above
  \<open>A_net f_u / g_M2\<close> for every positive ratio, and all four values returned are
  \<open>A_net f_u / g_M2\<close>.
\<close>

theorem F_nRd_independent_of_ratio:
  assumes d_0: "0 < rdt_d_0 self" and t: "0 < rdt_t self"
    and f_u: "0 < rdt_f_u self" and g_M2: "0 < rdt_g_M2 self"
  shows "coeficiente_u self = 3 * rdt_d_0 self
       \<and> area_transversal_neta self = 2 * rdt_d_0 self * rdt_t self
       \<and> (\<forall>r. 0 < r \<longrightarrow>
            (\<exists>c. F_nRd_1i self (coeficiente_u self) (area_transversal_neta self) r = Inr c
               \<and> area_transversal_neta self * rdt_f_u self / rdt_g_M2 self < c))
       \<and> capacidad_resistente_area_transversal_neta_F_nRd self =
           Inr [area_transversal_neta self * rdt_f_u self / rdt_g_M2 self,
                area_transversal_neta self * rdt_f_u self / rdt_g_M2 self,
                area_transversal_neta self * rdt_f_u self / rdt_g_M2 self,
                area_transversal_neta self * rdt_f_u self / rdt_g_M2 self]"
proof -
  define X where "X = area_transversal_neta self * rdt_f_u self / rdt_g_M2 self"
  have X: "0 < X"
    using d_0 t f_u g_M2 by (simp add: X_def area_transversal_neta_eq)
  have u: "coeficiente_u self \<noteq> 0" and g: "rdt_g_M2 self \<noteq> 0"
    using d_0 g_M2 by (simp_all add: coeficiente_u_eq)
  have ratio: "rdt_d_0 self / coeficiente_u self = 1 / 3"
    using d_0 by (simp add: coeficiente_u_eq)
  have cand: "(1 + 3 * r * (rdt_d_0 self / coeficiente_u self - 0.3))
                * area_transversal_neta self * rdt_f_u self / rdt_g_M2 self = (1 + r / 10) * X" for r
    using g unfolding ratio X_def by (simp add: field_simps)
  have above: "X < (1 + r / 10) * X" if "0 < r" for r :: real
  proof -
    have "1 * X < (1 + r / 10) * X"
      using that X by (intro mult_strict_right_mono) simp_all
    then show ?thesis by simp
  qed
  have strict: "\<forall>r. 0 < r \<longrightarrow>
            (\<exists>c. F_nRd_1i self (coeficiente_u self) (area_transversal_neta self) r = Inr c
               \<and> X < c)"
    using above by (simp add: F_nRd_1i_Inr [OF u g] cand)
  have m: "min ((1 + r / 10) * X) X = X" if "0 < r" for r :: real
    using above [OF that] by simp
  have "capacidad_resistente_area_transversal_neta_F_nRd self = Inr [X, X, X, X]"
    using F_nRd_value [of self] d_0 g m [of 2] m [of 1] m [of "1 / 2"] m [of "1 / 3"]
    by (auto simp: cand X_def [symmetric])
  with strict show ?thesis
    by (simp add: coeficiente_u_eq area_transversal_neta_eq X_def)
qed


theorem F_nRd_independent_of_ratio_witness:
  "0 < rdt_d_0 \<lparr>rdt_d = 10, rdt_A_s = 58, rdt_grado = ''8.8'', rdt_d_0 = 12, rdt_t = 2,
            rdt_f_u = 450, rdt_g_M2 = 1.25\<rparr>
   \<and> 0 < rdt_t \<lparr>rdt_d = 10, rdt_A_s = 58, rdt_grado = ''8.8'', rdt_d_0 = 12, rdt_t = 2,
            rdt_f_u = 450, rdt_g_M2 = 1.25\<rparr>
   \<and> 0 < rdt_f_u \<lparr>rdt_d = 10, rdt_A_s = 58, rdt_grado = ''8.8'', rdt_d_0 = 12, rdt_t = 2,
            rdt_f_u = 450, rdt_g_M2 = 1.25\<rparr>
   \<and> 0 < rdt_g_M2 \<lparr>rdt_d = 10, rdt_A_s = 58, rdt_grado = ''8.8'', rdt_d_0 = 12, rdt_t = 2,
            rdt_f_u = 450, rdt_g_M2 = 1.25\<rparr>
   \<and> area_transversal_neta \<lparr>rdt_d = 10, rdt_A_s = 58, rdt_grado = ''8.8'', rdt_d_0 = 12,
            rdt_t = 2, rdt_f_u = 450, rdt_g_M2 = 1.25\<rparr> = 48
   \<and> F_nRd_1i \<lparr>rdt_d = 10, rdt_A_s = 58, rdt_grado = ''8.8'', rdt_d_0 = 12, rdt_t = 2,
            rdt_f_u = 450, rdt_g_M2 = 1.25\<rparr> 36 48 2 = Inr 20736
   \<and> capacidad_resistente_area_transversal_neta_F_nRd
        \<lparr>rdt_d = 10, rdt_A_s = 58, rdt_grado = ''8.8'', rdt_d_0 = 12, rdt_t = 2,
            rdt_f_u = 450, rdt_g_M2 = 1.25\<rparr> = Inr [17280, 17280, 17280, 17280]"
proof -
  have h: "0 < rdt_d_0 \<lparr>rdt_d = 10, rdt_A_s = 58, rdt_grado = ''8.8'', rdt_d_0 = 12, rdt_t = 2,
            rdt_f_u = 450, rdt_g_M2 = 1.25\<rparr>"
    "0 < rdt_t \<lparr>rdt_d = 10, rdt_A_s = 58, rdt_grado = ''8.8'', rdt_d_0 = 12, rdt_t = 2,
            rdt_f_u = 450, rdt_g_M2 = 1.25\<rparr>"
    "0 < rdt_f_u \<lparr>rdt_d = 10, rdt_A_s = 58, rdt_grado = ''8.8'', rdt_d_0 = 12, rdt_t = 2,
            rdt_f_u = 450, rdt_g_M2 = 1.25\<rparr>"
    "0 < rdt_g_M2 \<lparr>rdt_d = 10, rdt_A_s = 58, rdt_grado = ''8.8'', rdt_d_0 = 12, rdt_t = 2,
            rdt_f_u = 450, rdt_g_M2 = 1.25\<rparr>"
    by simp_all
  have c: "F_nRd_1i \<lparr>rdt_d = 10, rdt_A_s = 58, rdt_grado = ''8.8'', rdt_d_0 = 12, rdt_t = 2,
            rdt_f_u = 450, rdt_g_M2 = 1.25\<rparr> 36 48 2 = Inr 20736"
    by (simp add: F_nRd_1i_def py_truediv_def)
  show ?thesis
    using F_nRd_independent_of_ratio [OF h] c by simp
qed

text \<open>
  C6. A grade outside the seven recognised ones is to be rejected with a dedicated
  error. Neither engine does so: at the grade "9.9", \<open>coeficiente_cortante_alfa_v\<close>
  (shear plane through the thread) fails with \<open>UnboundLocalError\<close> on its unassigned
  \<open>alfa_v\<close>, and \<open>resistencia_cortante_F_vRd\<close> prints a line and fails with
  \<open>UnboundLocalError\<close> on its unassigned \<open>F_vRd\<close>.
\<close>

theorem unknown_grade_not_rejected:
  "coeficiente_cortante_alfa_v
      \<lparr>rc_d = 20, rc_A = 314, rc_A_s = 245, rc_grado = ''9.9'', rc_f_ub = 900,
       rc_t = 15, rc_f_u = 430, rc_g_M2 = 1.25\<rparr> True
     = Inl (UnboundLocalError ''alfa_v'')
   \<and> resistencia_cortante_F_vRd
      \<lparr>rdt_d = 12, rdt_A_s = 84, rdt_grado = ''9.9'', rdt_d_0 = 13, rdt_t = 2,
       rdt_f_u = 450, rdt_g_M2 = 1.25\<rparr>
     = ([''Algo no cuadra.''], Inl (UnboundLocalError ''F_vRd''))"
  by (simp add: coeficiente_cortante_alfa_v_def resistencia_cortante_F_vRd_def
      resistencia_ultima_traccion_tornillo_f_ub_def py_getitem_def py_int_def py_strip_def
      py_isspace_def digit_value_def)

text \<open>The first element of a split always exists, and \<^verbatim>\<open>int\<close> fails with \<^verbatim>\<open>ValueError\<close> only.\<close>

lemma py_split_not_Nil: "py_split sep n s \<noteq> []"
  by (cases n) simp_all

lemma py_int_cases:
  "py_int s = Inl (ValueError Invalid_literal_for_int) \<or> (\<exists>n. py_int s = Inr n)"
  by (simp add: py_int_def split: list.splits option.splits)

lemma f_ub_cases:
  "resistencia_ultima_traccion_tornillo_f_ub self = Inl (ValueError Invalid_literal_for_int)
   \<or> (\<exists>n. resistencia_ultima_traccion_tornillo_f_ub self = Inr n)"
proof -
  obtain x xs where "py_split (CHR ''.'') 1 (rdt_grado self) = x # xs"
    using py_split_not_Nil [of "CHR ''.''" 1 "rdt_grado self"] by (auto simp: neq_Nil_conv)
  then have "resistencia_ultima_traccion_tornillo_f_ub self =
      (case py_int x of Inl e \<Rightarrow> Inl e | Inr n1 \<Rightarrow> Inr (n1 * 100))"
    by (simp add: resistencia_ultima_traccion_tornillo_f_ub_def py_getitem_def
        del: py_split.simps One_nat_def)
  then show ?thesis
    using py_int_cases [of x] by auto
qed

text \<open>
  X4. What the two shear methods do with every grade outside the seven recognised
  ones: \<open>coeficiente_cortante_alfa_v\<close> (shear plane through the thread) fails with
  \<open>UnboundLocalError\<close>; \<open>resistencia_cortante_F_vRd\<close> fails with the \<open>ValueError\<close> of
  \<^verbatim>\<open>int\<close> when the text before the first dot is not an integer, and otherwise prints
  a line and fails with \<open>UnboundLocalError\<close>. Neither returns a value.
\<close>

theorem unknown_grade_never_a_grade_error:
  "(rc_grado self \<notin> {''4.6'', ''4.8'', ''5.6'', ''5.8'', ''6.8'', ''8.8'', ''10.9''} \<longrightarrow>
      coeficiente_cortante_alfa_v self True = Inl (UnboundLocalError ''alfa_v''))
   \<and> (rdt_grado bolt \<notin> {''4.6'', ''4.8'', ''5.6'', ''5.8'', ''6.8'', ''8.8'', ''10.9''} \<longrightarrow>
      resistencia_cortante_F_vRd bolt = ([], Inl (ValueError Invalid_literal_for_int))
      \<or> resistencia_cortante_F_vRd bolt = ([''Algo no cuadra.''], Inl (UnboundLocalError ''F_vRd'')))"
proof -
  have "resistencia_cortante_F_vRd bolt = ([], Inl (ValueError Invalid_literal_for_int))
      \<or> resistencia_cortante_F_vRd bolt = ([''Algo no cuadra.''], Inl (UnboundLocalError ''F_vRd''))"
    if "rdt_grado bolt \<notin> {''4.6'', ''4.8'', ''5.6'', ''5.8'', ''6.8'', ''8.8'', ''10.9''}"
    using that f_ub_cases [of bolt] by (auto simp: resistencia_cortante_F_vRd_def)
  then show ?thesis
    by (simp add: coeficiente_cortante_alfa_v_def)
qed

theorem unknown_grade_never_a_grade_error_witness:
  "''M8'' \<notin> {''4.6'', ''4.8'', ''5.6'', ''5.8'', ''6.8'', ''8.8'', ''10.9''}
   \<and> coeficiente_cortante_alfa_v
        \<lparr>rc_d = 20, rc_A = 314, rc_A_s = 245, rc_grado = ''M8'', rc_f_ub = 800,
         rc_t = 15, rc_f_u = 430, rc_g_M2 = 1.25\<rparr> True = Inl (UnboundLocalError ''alfa_v'')
   \<and> resistencia_cortante_F_vRd
        \<lparr>rdt_d = 10, rdt_A_s = 58, rdt_grado = ''M8'', rdt_d_0 = 12, rdt_t = 2,
         rdt_f_u = 450, rdt_g_M2 = 1.25\<rparr> = ([], Inl (ValueError Invalid_literal_for_int))"
proof -
  have p: "py_int ''M8'' = Inl (ValueError Invalid_literal_for_int)"
    by (simp add: py_int_def py_strip_def py_isspace_def digit_value_def)
  have "resistencia_cortante_F_vRd
        \<lparr>rdt_d = 10, rdt_A_s = 58, rdt_grado = ''M8'', rdt_d_0 = 12, rdt_t = 2,
         rdt_f_u = 450, rdt_g_M2 = 1.25\<rparr> \<noteq> ([''Algo no cuadra.''], Inl (UnboundLocalError ''F_vRd''))"
    by (simp add: resistencia_cortante_F_vRd_def resistencia_ultima_traccion_tornillo_f_ub_def
        py_getitem_def p)
  then show ?thesis
    using unknown_grade_never_a_grade_error [of
        "\<lparr>rc_d = 20, rc_A = 314, rc_A_s = 245, rc_grado = ''M8'', rc_f_ub = 800,
         rc_t = 15, rc_f_u = 430, rc_g_M2 = 1.25\<rparr>"
        "\<lparr>rdt_d = 10, rdt_A_s = 58, rdt_grado = ''M8'', rdt_d_0 = 12, rdt_t = 2,
         rdt_f_u = 450, rdt_g_M2 = 1.25\<rparr>"]
    by simp
qed

text \<open>
  C7. For the grade "8.8" the ultimate strength is 800, but the yield strength is not
  640: \<open>limite_elastico_tornillo_f_yb\<close> reads element 2 of a split that has at most two
  elements and fails with \<open>IndexError\<close>.
\<close>

theorem f_yb_grade_8_8_index_error:
  "limite_elastico_tornillo_f_yb
      \<lparr>rdt_d = 12, rdt_A_s = 84, rdt_grado = ''8.8'', rdt_d_0 = 13, rdt_t = 2,
       rdt_f_u = 450, rdt_g_M2 = 1.25\<rparr> = Inl IndexError
   \<and> resistencia_ultima_traccion_tornillo_f_ub
      \<lparr>rdt_d = 12, rdt_A_s = 84, rdt_grado = ''8.8'', rdt_d_0 = 13, rdt_t = 2,
       rdt_f_u = 450, rdt_g_M2 = 1.25\<rparr> = Inr 800"
  by (simp add: limite_elastico_tornillo_f_yb_def resistencia_ultima_traccion_tornillo_f_ub_def
      py_getitem_def py_int_def py_strip_def py_isspace_def digit_value_def)

text \<open>A split with \<open>maxsplit = n\<close> has at most \<open>n + 1\<close> elements.\<close>

lemma length_py_split: "length (py_split sep n s) \<le> Suc n"
  by (induction sep n s rule: py_split.induct) auto

text \<open>
  X3. \<open>limite_elastico_tornillo_f_yb\<close> returns a value for no grade string at all.
\<close>

theorem limite_elastico_tornillo_f_yb_never_returns:
  "limite_elastico_tornillo_f_yb self \<noteq> Inr f_yb"
proof -
  have "length (py_split (CHR ''.'') 1 (rdt_grado self)) \<le> 2"
    using length_py_split [of "CHR ''.''" 1 "rdt_grado self"] by simp
  then have "\<not> 2 < length (py_split (CHR ''.'') 1 (rdt_grado self))"
    by linarith
  then have "py_getitem (py_split (CHR ''.'') 1 (rdt_grado self)) 2 = Inl IndexError"
    unfolding py_getitem_def by (simp only: if_False)
  then show ?thesis
    by (simp add: limite_elastico_tornillo_f_yb_def split: sum.splits del: py_split.simps One_nat_def)
qed

end
